theory Spec2Isabelle
  imports Main "HOL-Library.Char_ord"
begin

section \<open>Request-scoped authentication gate (src/middleware.ts)\<close>

text \<open>
  The middleware talks to the process-wide backend client. The client is an external
  collaborator, so its two auth operations are parameters of the model: a state \<open>'w\<close>
  of the client and functions on it. \<open>setSession\<close> takes the two tokens and yields the
  next client state; \<open>getSession\<close> reads the active session (null is \<open>None\<close>) and
  may change the state (a token refresh).
\<close>

datatype user = User string

record session =
  user :: user
  access_token :: string
  refresh_token :: string

record 'w auth_api =
  setSession :: "string \<Rightarrow> string \<Rightarrow> 'w \<Rightarrow> 'w"
  getSession :: "'w \<Rightarrow> session option \<times> 'w"

text \<open>
  A request as the middleware reads it: \<open>url.pathname\<close> and the cookie jar.
  \<open>cookies.get(name)?.value\<close> is \<open>None\<close> when the cookie is absent and the cookie's
  value (possibly the empty string) otherwise.
\<close>

record request =
  pathname :: string
  cookies :: "string \<rightharpoonup> string"

text \<open>The shared request context; both fields are unset until the gate fills them.\<close>

record locals =
  locals_user :: "user option"
  locals_session :: "session option"

text \<open>
  What the middleware returns: the redirect response, or whatever the rest of the chain
  (\<open>next()\<close>, the page handler) returns. The handler is a parameter; it sees the locals
  and the client state of the moment it is called.
\<close>

datatype 'r response = Redirect string | Handled 'r

text \<open>
  The calls the middleware makes, in the order it makes them. The log is an observation
  of the run: every call below appends its own entry and nothing reads the log.
\<close>

datatype call =
    SetSession string string
  | GetSession
  | RedirectTo string
  | CallNext locals

text \<open>\<open>String.prototype.startsWith\<close>.\<close>

definition startsWith :: "string \<Rightarrow> string \<Rightarrow> bool" where
  "startsWith s p = (take (length p) s = p)"

text \<open>
  JavaScript truthiness of a \<open>string | undefined\<close>: undefined and the empty string are
  falsy.
\<close>

fun truthy :: "string option \<Rightarrow> bool" where
  "truthy None = False"
| "truthy (Some s) = (s \<noteq> [])"

text \<open>
  The first statement block of \<open>onRequest\<close>: read both cookies and, when both values are
  truthy, call \<open>supabase.auth.setSession\<close>. Returns the calls made and the client state.
\<close>

definition hydrate :: "'w auth_api \<Rightarrow> request \<Rightarrow> 'w \<Rightarrow> call list \<times> 'w" where
  "hydrate A req w =
     (case (cookies req ''sb-access-token'', cookies req ''sb-refresh-token'') of
        (Some accessToken, Some refreshToken) \<Rightarrow>
          if truthy (Some accessToken) \<and> truthy (Some refreshToken)
          then ([SetSession accessToken refreshToken],
                setSession A accessToken refreshToken w)
          else ([], w)
      | _ \<Rightarrow> ([], w))"

text \<open>
  \<open>onRequest\<close>. The result is the response, the calls in order, and the final client
  state. \<open>next\<close> is applied only on the paths of the source that reach \<open>return next()\<close>.
\<close>

definition onRequest ::
  "'w auth_api \<Rightarrow> (locals \<Rightarrow> 'w \<Rightarrow> 'r \<times> 'w) \<Rightarrow> request \<Rightarrow> locals \<Rightarrow> 'w
     \<Rightarrow> 'r response \<times> call list \<times> 'w" where
  "onRequest A next req loc w =
     (let isAdminPath = startsWith (pathname req) ''/admin'';
          isLoginPage = (pathname req = ''/admin/login'');
          (log1, w1) = hydrate A req w
      in if isAdminPath \<and> \<not> isLoginPage then
           (case getSession A w1 of
              (None, w2) \<Rightarrow>
                (Redirect ''/admin/login'',
                 log1 @ [GetSession, RedirectTo ''/admin/login''], w2)
            | (Some sess, w2) \<Rightarrow>
                (let loc' = loc\<lparr>locals_user := Some (user sess),
                                 locals_session := Some sess\<rparr>;
                     (r, w3) = next loc' w2
                 in (Handled r, log1 @ [GetSession, CallNext loc'], w3)))
         else
           (let (r, w2) = next loc w1
            in (Handled r, log1 @ [CallNext loc], w2)))"

text \<open>Observations on a run.\<close>

definition gated :: "request \<Rightarrow> bool" where
  "gated req = (startsWith (pathname req) ''/admin'' \<and> pathname req \<noteq> ''/admin/login'')"

definition hydrated_state :: "'w auth_api \<Rightarrow> request \<Rightarrow> 'w \<Rightarrow> 'w" where
  "hydrated_state A req w = snd (hydrate A req w)"

definition active_session :: "'w auth_api \<Rightarrow> request \<Rightarrow> 'w \<Rightarrow> session option" where
  "active_session A req w = fst (getSession A (hydrated_state A req w))"

fun is_redirect :: "'r response \<Rightarrow> bool" where
  "is_redirect (Redirect _) = True"
| "is_redirect (Handled _) = False"

fun is_CallNext :: "call \<Rightarrow> bool" where
  "is_CallNext (CallNext _) = True"
| "is_CallNext _ = False"

text \<open>
  A small concrete client for the closed examples: its state is the active session,
  \<open>setSession\<close> accepts exactly the token pair \<open>(''good'', ''fresh'')\<close> and otherwise leaves
  the state as it is, and \<open>getSession\<close> reads the state.
\<close>

definition demo_session :: session where
  "demo_session = \<lparr>user = User ''kow'', access_token = ''good'', refresh_token = ''fresh''\<rparr>"

definition demo_auth :: "(session option) auth_api" where
  "demo_auth =
     \<lparr>setSession = (\<lambda>a r w. if a = ''good'' \<and> r = ''fresh'' then Some demo_session else w),
      getSession = (\<lambda>w. (w, w))\<rparr>"

definition demo_next :: "locals \<Rightarrow> session option \<Rightarrow> string \<times> session option" where
  "demo_next loc w = (''page'', w)"

definition no_locals :: locals where
  "no_locals = \<lparr>locals_user = None, locals_session = None\<rparr>"

section \<open>Data model (src/lib/supabase.ts)\<close>

text \<open>
  The row types of the source. Record fields share one name space, so the fields of
  \<open>ContentImage\<close> and \<open>SiteSetting\<close> carry a prefix (\<open>ci_\<close>, \<open>ss_\<close>) and \<open>Booking.id\<close>
  is \<open>b_id\<close>; the other \<open>Booking\<close> fields keep their names. An optional field
  (\<open>admin_notes?\<close>) is an \<open>option\<close>. A \<open>number\<close> is only stored and returned here, never
  computed with, and is modelled as an integer.
\<close>

datatype BookingStatus = Pending | Accepted | Denied

type_synonym number = int

record Booking =
  b_id :: string
  created_at :: string
  first_name :: string
  last_name :: string
  email :: string
  phone :: string
  tattoo_idea :: string
  tattoo_placement :: string
  tattoo_size :: string
  is_custom :: bool
  reference_photos :: "string list"
  status :: BookingStatus
  admin_notes :: "string option"
  client_access_token :: "string option"
  agreed_price :: "number option"
  scheduled_date :: "string option"

datatype ImageCategory = Featured | Portfolio | Flash

record ContentImage =
  ci_id :: string
  ci_created_at :: string
  ci_url :: string
  ci_category :: ImageCategory
  ci_title :: string
  ci_description :: "string option"
  ci_price :: "number option"
  ci_size :: "string option"
  ci_is_featured :: bool
  ci_display_order :: "number option"

record SiteSetting =
  ss_id :: string
  ss_key :: string
  ss_value :: string
  ss_created_at :: string

text \<open>
  \<open>Partial<Booking>\<close> and \<open>Partial<ContentImage>\<close>: every field may be absent (\<open>None\<close>).
  A present field carries the value to store.
\<close>

record Booking_patch =
  p_id :: "string option"
  p_created_at :: "string option"
  p_first_name :: "string option"
  p_last_name :: "string option"
  p_email :: "string option"
  p_phone :: "string option"
  p_tattoo_idea :: "string option"
  p_tattoo_placement :: "string option"
  p_tattoo_size :: "string option"
  p_is_custom :: "bool option"
  p_reference_photos :: "string list option"
  p_status :: "BookingStatus option"
  p_admin_notes :: "string option"
  p_client_access_token :: "string option"
  p_agreed_price :: "number option"
  p_scheduled_date :: "string option"

record ContentImage_patch =
  q_id :: "string option"
  q_created_at :: "string option"
  q_url :: "string option"
  q_category :: "ImageCategory option"
  q_title :: "string option"
  q_description :: "string option"
  q_price :: "number option"
  q_size :: "string option"
  q_is_featured :: "bool option"
  q_display_order :: "number option"

text \<open>The object literal \<open>{}\<close> typed as a partial booking: no field present.\<close>

definition empty_patch :: Booking_patch where
  "empty_patch =
     \<lparr>p_id = None, p_created_at = None, p_first_name = None, p_last_name = None,
      p_email = None, p_phone = None, p_tattoo_idea = None, p_tattoo_placement = None,
      p_tattoo_size = None, p_is_custom = None, p_reference_photos = None,
      p_status = None, p_admin_notes = None, p_client_access_token = None,
      p_agreed_price = None, p_scheduled_date = None\<rparr>"

section \<open>The row store as the data-access functions see it\<close>

text \<open>
  The backend is an external collaborator. Its answer to one query is the pair
  \<open>{data, error}\<close> that the source destructures. The model of the store holds the three
  tables the functions below touch and \<open>fault\<close>: the failure (network, authorisation,
  constraint) with which the backend answers the request at hand, \<open>None\<close> when the
  request is executed.
\<close>

record pg_error =
  code :: string
  message :: string

record 'a pg_response =
  data :: "'a option"
  error :: "pg_error option"

record backend =
  bookings :: "Booking list"
  content_images :: "ContentImage list"
  site_settings :: "SiteSetting list"
  fault :: "pg_error option"

text \<open>
  The error the backend returns for \<open>.single()\<close> when the result does not have exactly
  one row. The source tests for this code and calls it "Not found". What follows in this
  section is the contract of the backend's query interface, not code of the repository;
  the functions of the next section are the repository's.
\<close>

definition PGRST116 :: pg_error where
  "PGRST116 =
     \<lparr>code = ''PGRST116'',
      message = ''JSON object requested, multiple (or no) rows returned''\<rparr>"

text \<open>
  \<open>.single()\<close> on the rows a query selected: the fault if there is one, the row if there
  is exactly one, the error \<open>PGRST116\<close> otherwise.
\<close>

definition single :: "pg_error option \<Rightarrow> 'r list \<Rightarrow> 'r pg_response" where
  "single flt rows =
     (case flt of
        Some e \<Rightarrow> \<lparr>data = None, error = Some e\<rparr>
      | None \<Rightarrow>
          (case rows of
             [r] \<Rightarrow> \<lparr>data = Some r, error = None\<rparr>
           | _ \<Rightarrow> \<lparr>data = None, error = Some PGRST116\<rparr>))"

text \<open>
  A query with no \<open>.single()\<close> (here: the delete): the fault if there is one, no error
  otherwise, however many rows matched.
\<close>

definition plural :: "pg_error option \<Rightarrow> 'r list \<Rightarrow> ('r list) pg_response" where
  "plural flt rows =
     (case flt of
        Some e \<Rightarrow> \<lparr>data = None, error = Some e\<rparr>
      | None \<Rightarrow> \<lparr>data = Some rows, error = None\<rparr>)"

text \<open>
  Storing a patch: a present field replaces the stored one, an absent field leaves it.
\<close>

definition patch_Booking :: "Booking_patch \<Rightarrow> Booking \<Rightarrow> Booking" where
  "patch_Booking p b =
     \<lparr>b_id = (case p_id p of None \<Rightarrow> b_id b | Some v \<Rightarrow> v),
      created_at = (case p_created_at p of None \<Rightarrow> created_at b | Some v \<Rightarrow> v),
      first_name = (case p_first_name p of None \<Rightarrow> first_name b | Some v \<Rightarrow> v),
      last_name = (case p_last_name p of None \<Rightarrow> last_name b | Some v \<Rightarrow> v),
      email = (case p_email p of None \<Rightarrow> email b | Some v \<Rightarrow> v),
      phone = (case p_phone p of None \<Rightarrow> phone b | Some v \<Rightarrow> v),
      tattoo_idea = (case p_tattoo_idea p of None \<Rightarrow> tattoo_idea b | Some v \<Rightarrow> v),
      tattoo_placement =
        (case p_tattoo_placement p of None \<Rightarrow> tattoo_placement b | Some v \<Rightarrow> v),
      tattoo_size = (case p_tattoo_size p of None \<Rightarrow> tattoo_size b | Some v \<Rightarrow> v),
      is_custom = (case p_is_custom p of None \<Rightarrow> is_custom b | Some v \<Rightarrow> v),
      reference_photos =
        (case p_reference_photos p of None \<Rightarrow> reference_photos b | Some v \<Rightarrow> v),
      status = (case p_status p of None \<Rightarrow> status b | Some v \<Rightarrow> v),
      admin_notes = (case p_admin_notes p of None \<Rightarrow> admin_notes b | Some v \<Rightarrow> Some v),
      client_access_token =
        (case p_client_access_token p of None \<Rightarrow> client_access_token b
         | Some v \<Rightarrow> Some v),
      agreed_price =
        (case p_agreed_price p of None \<Rightarrow> agreed_price b | Some v \<Rightarrow> Some v),
      scheduled_date =
        (case p_scheduled_date p of None \<Rightarrow> scheduled_date b | Some v \<Rightarrow> Some v)\<rparr>"

definition patch_ContentImage :: "ContentImage_patch \<Rightarrow> ContentImage \<Rightarrow> ContentImage" where
  "patch_ContentImage p c =
     \<lparr>ci_id = (case q_id p of None \<Rightarrow> ci_id c | Some v \<Rightarrow> v),
      ci_created_at = (case q_created_at p of None \<Rightarrow> ci_created_at c | Some v \<Rightarrow> v),
      ci_url = (case q_url p of None \<Rightarrow> ci_url c | Some v \<Rightarrow> v),
      ci_category = (case q_category p of None \<Rightarrow> ci_category c | Some v \<Rightarrow> v),
      ci_title = (case q_title p of None \<Rightarrow> ci_title c | Some v \<Rightarrow> v),
      ci_description =
        (case q_description p of None \<Rightarrow> ci_description c | Some v \<Rightarrow> Some v),
      ci_price = (case q_price p of None \<Rightarrow> ci_price c | Some v \<Rightarrow> Some v),
      ci_size = (case q_size p of None \<Rightarrow> ci_size c | Some v \<Rightarrow> Some v),
      ci_is_featured = (case q_is_featured p of None \<Rightarrow> ci_is_featured c | Some v \<Rightarrow> v),
      ci_display_order =
        (case q_display_order p of None \<Rightarrow> ci_display_order c | Some v \<Rightarrow> Some v)\<rparr>"

text \<open>
  \<open>.update(u).eq(col, v).select().single()\<close>: the rows that match are patched and
  returned through \<open>single\<close>. The store keeps the patched rows only when the request
  succeeds; a request answered with an error leaves the table as it was.
\<close>

definition update_single ::
  "pg_error option \<Rightarrow> ('r \<Rightarrow> bool) \<Rightarrow> ('r \<Rightarrow> 'r) \<Rightarrow> 'r list \<Rightarrow> 'r pg_response \<times> 'r list" where
  "update_single flt hit f rows =
     (let resp = single flt (map f (filter hit rows))
      in (resp, if error resp = None then map (\<lambda>r. if hit r then f r else r) rows else rows))"

text \<open>\<open>.delete().eq(col, v)\<close>: the rows that match are removed unless the request fails.\<close>

definition delete_where ::
  "pg_error option \<Rightarrow> ('r \<Rightarrow> bool) \<Rightarrow> 'r list \<Rightarrow> ('r list) pg_response \<times> 'r list" where
  "delete_where flt hit rows =
     (let resp = plural flt (filter hit rows)
      in (resp, if error resp = None then filter (\<lambda>r. \<not> hit r) rows else rows))"

section \<open>Typed data-access functions (src/lib/supabase.ts)\<close>

text \<open>
  Each function is the source's: the query, then the handling of \<open>{data, error}\<close>.
  \<open>throw error\<close> is \<open>Inl error\<close>; a returned \<open>null\<close> is \<open>Inr None\<close>. A function that
  writes returns the store as well. \<open>data as Booking\<close> is an unchecked cast, so the result
  type keeps the possibility of \<open>null\<close> that \<open>data\<close> has.
\<close>

definition getBookingById :: "backend \<Rightarrow> string \<Rightarrow> pg_error + Booking option" where
  "getBookingById db ident =
     (let resp = single (fault db) (filter (\<lambda>b. b_id b = ident) (bookings db))
      in case error resp of
           Some e \<Rightarrow> Inl e
         | None \<Rightarrow> Inr (data resp))"

definition getBookingByToken :: "backend \<Rightarrow> string \<Rightarrow> pg_error + Booking option" where
  "getBookingByToken db token =
     (let resp = single (fault db)
                   (filter (\<lambda>b. client_access_token b = Some token) (bookings db))
      in case error resp of
           Some e \<Rightarrow> if code e = ''PGRST116'' then Inr None else Inl e
         | None \<Rightarrow> Inr (data resp))"

text \<open>
  \<open>getSiteSetting\<close> selects the column \<open>value\<close> only, so the rows that reach
  \<open>.single()\<close> are the values of the rows with the key. \<open>data?.value ?? null\<close> is
  the value when \<open>data\<close> is a row and null when \<open>data\<close> is null.
\<close>

definition getSiteSetting :: "backend \<Rightarrow> string \<Rightarrow> pg_error + string option" where
  "getSiteSetting db k =
     (let resp = single (fault db)
                   (map ss_value (filter (\<lambda>r. ss_key r = k) (site_settings db)))
      in case error resp of
           Some e \<Rightarrow> if code e = ''PGRST116'' then Inr None else Inl e
         | None \<Rightarrow> Inr (case data resp of None \<Rightarrow> None | Some v \<Rightarrow> Some v))"

definition updateContentImage ::
  "backend \<Rightarrow> string \<Rightarrow> ContentImage_patch \<Rightarrow> (pg_error + ContentImage option) \<times> backend" where
  "updateContentImage db ident updates =
     (let (resp, rows') =
            update_single (fault db) (\<lambda>c. ci_id c = ident) (patch_ContentImage updates)
              (content_images db)
      in (case error resp of Some e \<Rightarrow> Inl e | None \<Rightarrow> Inr (data resp),
          db\<lparr>content_images := rows'\<rparr>))"

definition deleteContentImage :: "backend \<Rightarrow> string \<Rightarrow> (pg_error + unit) \<times> backend" where
  "deleteContentImage db ident =
     (let (resp, rows') = delete_where (fault db) (\<lambda>c. ci_id c = ident) (content_images db)
      in (case error resp of Some e \<Rightarrow> Inl e | None \<Rightarrow> Inr (),
          db\<lparr>content_images := rows'\<rparr>))"

definition updateBooking ::
  "backend \<Rightarrow> string \<Rightarrow> Booking_patch \<Rightarrow> (pg_error + Booking option) \<times> backend" where
  "updateBooking db ident updates =
     (let (resp, rows') =
            update_single (fault db) (\<lambda>b. b_id b = ident) (patch_Booking updates) (bookings db)
      in (case error resp of Some e \<Rightarrow> Inl e | None \<Rightarrow> Inr (data resp),
          db\<lparr>bookings := rows'\<rparr>))"

text \<open>
  The \<open>updates\<close> object that \<open>updateBookingStatus\<close> builds: \<open>{ status }\<close>, and
  \<open>admin_notes\<close> assigned when \<open>adminNotes !== undefined\<close>. An omitted argument is
  \<open>None\<close>; the empty string is a supplied argument.
\<close>

definition status_updates :: "BookingStatus \<Rightarrow> string option \<Rightarrow> Booking_patch" where
  "status_updates st adminNotes =
     (let updates = empty_patch\<lparr>p_status := Some st\<rparr>
      in case adminNotes of
           None \<Rightarrow> updates
         | Some notes \<Rightarrow> updates\<lparr>p_admin_notes := Some notes\<rparr>)"

definition updateBookingStatus ::
  "backend \<Rightarrow> string \<Rightarrow> BookingStatus \<Rightarrow> string option
     \<Rightarrow> (pg_error + Booking option) \<times> backend" where
  "updateBookingStatus db ident st adminNotes =
     (let updates = status_updates st adminNotes;
          (resp, rows') =
            update_single (fault db) (\<lambda>b. b_id b = ident) (patch_Booking updates) (bookings db)
      in (case error resp of Some e \<Rightarrow> Inl e | None \<Rightarrow> Inr (data resp),
          db\<lparr>bookings := rows'\<rparr>))"

section \<open>Backend client binding (src/lib/supabase.ts, module level)\<close>

text \<open>
  The build-time environment: each variable is set or not, \<open>SSR\<close> is a boolean.
\<close>

record env =
  PUBLIC_SUPABASE_URL :: "string option"
  PUBLIC_SUPABASE_ANON_KEY :: "string option"
  SUPABASE_SERVICE_ROLE_KEY :: "string option"
  SSR :: bool

text \<open>\<open>a || b\<close> on strings, where \<open>a\<close> may be undefined: \<open>b\<close> when \<open>a\<close> is falsy.\<close>

definition or_string :: "string option \<Rightarrow> string \<Rightarrow> string" where
  "or_string a b = (case a of None \<Rightarrow> b | Some s \<Rightarrow> if truthy (Some s) then s else b)"

record auth_options =
  persistSession :: bool
  autoRefreshToken :: bool
  detectSessionInUrl :: bool

record SupabaseClient =
  client_url :: string
  client_key :: string
  client_auth :: "auth_options option"

text \<open>
  \<open>createClient\<close> belongs to the client library. It is the one call at module level that
  can throw: the library refuses an empty URL, an empty key, and a non-empty URL that
  its validation does not accept (a blank string, a string that is not a well-formed
  http or https URL). Which non-empty strings the validation accepts depends on the
  library and on the platform's URL parser; it is the parameter \<open>accepts\<close>. A call
  that throws is \<open>None\<close>. The handle a successful call returns is modelled by the
  configuration it was given; \<open>client_auth\<close> is \<open>None\<close> when no options object is passed.
\<close>

definition createClient ::
  "(string \<Rightarrow> bool) \<Rightarrow> string \<Rightarrow> string \<Rightarrow> auth_options option \<Rightarrow> SupabaseClient option" where
  "createClient accepts url key opts =
     (if url \<noteq> [] \<and> accepts url \<and> key \<noteq> []
      then Some \<lparr>client_url = url, client_key = key, client_auth = opts\<rparr>
      else None)"

definition supabaseUrl :: "env \<Rightarrow> string" where
  "supabaseUrl e = or_string (PUBLIC_SUPABASE_URL e) []"

definition supabaseAnonKey :: "env \<Rightarrow> string" where
  "supabaseAnonKey e = or_string (PUBLIC_SUPABASE_ANON_KEY e) []"

definition supabaseServiceKey :: "env \<Rightarrow> string" where
  "supabaseServiceKey e = or_string (SUPABASE_SERVICE_ROLE_KEY e) []"

definition isServer :: "env \<Rightarrow> bool" where
  "isServer e = SSR e"

definition supabaseKey :: "env \<Rightarrow> string" where
  "supabaseKey e =
     (if isServer e then or_string (Some (supabaseServiceKey e)) (supabaseAnonKey e)
      else supabaseAnonKey e)"

text \<open>The validation block only warns, and only on the server.\<close>

definition warns :: "env \<Rightarrow> bool" where
  "warns e = ((supabaseUrl e = [] \<or> supabaseKey e = []) \<and> isServer e)"

text \<open>
  The module-level constant \<open>supabase\<close>: the client, or \<open>None\<close> when the module load
  throws.
\<close>

definition supabase :: "(string \<Rightarrow> bool) \<Rightarrow> env \<Rightarrow> SupabaseClient option" where
  "supabase accepts e =
     (if supabaseUrl e \<noteq> [] \<and> supabaseKey e \<noteq> []
      then createClient accepts (supabaseUrl e) (supabaseKey e)
             (Some \<lparr>persistSession = \<not> isServer e,
                    autoRefreshToken = \<not> isServer e,
                    detectSessionInUrl = \<not> isServer e\<rparr>)
      else createClient accepts ''https://placeholder.supabase.co'' ''placeholder-key'' None)"

definition placeholder_client :: SupabaseClient where
  "placeholder_client =
     \<lparr>client_url = ''https://placeholder.supabase.co'',
      client_key = ''placeholder-key'',
      client_auth = None\<rparr>"

text \<open>
  The session options a client runs with. The library fills in its defaults for what
  the caller does not pass, and its defaults for these three options are all on.
\<close>

definition default_auth_options :: auth_options where
  "default_auth_options =
     \<lparr>persistSession = True, autoRefreshToken = True, detectSessionInUrl = True\<rparr>"

definition effective_auth :: "SupabaseClient \<Rightarrow> auth_options" where
  "effective_auth c = (case client_auth c of None \<Rightarrow> default_auth_options | Some opts \<Rightarrow> opts)"

text \<open>
  A variable that is not configured: undefined or the empty string. This is the
  reading of the environment that the statements about the binding use; the code
  above does not.
\<close>

definition unset :: "string option \<Rightarrow> bool" where
  "unset v = (v = None \<or> v = Some [])"

text \<open>
  The environment is not configured when the URL is unset or the key the context
  would use is: on the server both keys, in the browser the anon key.
\<close>

definition unconfigured :: "env \<Rightarrow> bool" where
  "unconfigured e =
     (unset (PUBLIC_SUPABASE_URL e)
      \<or> (if SSR e
          then unset (SUPABASE_SERVICE_ROLE_KEY e) \<and> unset (PUBLIC_SUPABASE_ANON_KEY e)
          else unset (PUBLIC_SUPABASE_ANON_KEY e)))"

text \<open>
  A stand-in for the library's validation in the closed examples: a scheme \<open>http://\<close>
  or \<open>https://\<close>, something after it, and no blank.
\<close>

definition demo_accepts :: "string \<Rightarrow> bool" where
  "demo_accepts u =
     ((startsWith u ''https://'' \<and> 8 < length u \<or> startsWith u ''http://'' \<and> 7 < length u)
      \<and> CHR '' '' \<notin> set u)"

section \<open>Object storage, the clock and file names\<close>

text \<open>
  A \<open>File\<close> is its name and its bytes. Strings are byte lists here: a character outside
  ASCII is several bytes, each above 127, where JavaScript has one or two UTF-16 code
  units, each above 127 as well; the character classes below keep none of either, so
  the sanitised names agree.
\<close>

record File =
  name :: string
  bytes :: string

text \<open>An awaited promise either rejects (the \<open>await\<close> throws) or fulfils with a value.\<close>

datatype 'a awaited = Rejected string | Fulfilled 'a

record storage_error =
  se_message :: string

record upload_data =
  path :: string

record upload_response =
  up_data :: "upload_data option"
  up_error :: "storage_error option"

text \<open>The row literal the booking form inserts; \<open>formData.get\<close> yields a string or null.\<close>

record new_booking =
  nb_first_name :: "string option"
  nb_last_name :: "string option"
  nb_email :: "string option"
  nb_phone :: "string option"
  nb_tattoo_idea :: "string option"
  nb_tattoo_placement :: "string option"
  nb_tattoo_size :: "string option"
  nb_is_custom :: bool
  nb_reference_photos :: "string list"
  nb_status :: string

text \<open>
  The external services the upload paths use, as parameters over a world \<open>'w\<close>:
  \<open>Date.now()\<close>, \<open>storage.from(bucket).upload(path, file)\<close>,
  \<open>storage.from(bucket).getPublicUrl(path)\<close> and \<open>from('bookings').insert(row)\<close>, which
  answers with its \<open>error\<close>.
\<close>

record 'w services =
  Date_now :: "'w \<Rightarrow> nat"
  storage_upload :: "string \<Rightarrow> string \<Rightarrow> File \<Rightarrow> 'w \<Rightarrow> upload_response awaited \<times> 'w"
  storage_getPublicUrl :: "string \<Rightarrow> string \<Rightarrow> string"
  bookings_insert :: "new_booking \<Rightarrow> 'w \<Rightarrow> pg_error option \<times> 'w"

text \<open>
  The decimal numeral that a template literal prints for a non-negative integer
  (\<open>Date.now()\<close> is the number of milliseconds since the epoch).
\<close>

definition digit_char :: "nat \<Rightarrow> char" where
  "digit_char d = ''0123456789'' ! d"

function string_of_nat :: "nat \<Rightarrow> string" where
  "string_of_nat n =
     (if n < 10 then [digit_char n]
      else string_of_nat (n div 10) @ [digit_char (n mod 10)])"
  by pat_completeness auto
termination
  by (relation "measure id") auto

text \<open>
  The character classes of the two regular expressions: \<open>[a-zA-Z0-9]\<close> and
  \<open>[a-zA-Z0-9.]\<close>. \<open>replace(/[^...]/g, "")\<close> deletes every character outside the class.
\<close>

definition class_alnum :: "char \<Rightarrow> bool" where
  "class_alnum c =
     ((CHR ''a'' \<le> c \<and> c \<le> CHR ''z'') \<or> (CHR ''A'' \<le> c \<and> c \<le> CHR ''Z'')
      \<or> (CHR ''0'' \<le> c \<and> c \<le> CHR ''9''))"

definition class_alnum_dot :: "char \<Rightarrow> bool" where
  "class_alnum_dot c = (class_alnum c \<or> c = CHR ''.'')"

text \<open>\<open>uploadImage\<close>: the binding \<open>const fileName = path || `...`\<close>, then the function.\<close>

definition uploadImage_fileName :: "'w services \<Rightarrow> File \<Rightarrow> string option \<Rightarrow> 'w \<Rightarrow> string" where
  "uploadImage_fileName S file pth w =
     or_string pth (string_of_nat (Date_now S w) @ ''-'' @ filter class_alnum_dot (name file))"

record upload_result =
  result_path :: string
  publicUrl :: string

datatype thrown = StorageError storage_error | PromiseRejected string | TypeError string

definition uploadImage ::
  "'w services \<Rightarrow> string \<Rightarrow> File \<Rightarrow> string option \<Rightarrow> 'w \<Rightarrow> (thrown + upload_result) \<times> 'w" where
  "uploadImage S bucket file pth w =
     (let fileName = uploadImage_fileName S file pth w;
          (r, w') = storage_upload S bucket fileName file w
      in case r of
           Rejected x \<Rightarrow> (Inl (PromiseRejected x), w')
         | Fulfilled resp \<Rightarrow>
             (case up_error resp of
                Some e \<Rightarrow> (Inl (StorageError e), w')
              | None \<Rightarrow>
                  (case up_data resp of
                     None \<Rightarrow> (Inl (TypeError ''data is null''), w')
                   | Some d \<Rightarrow>
                       (Inr \<lparr>result_path = path d,
                             publicUrl = storage_getPublicUrl S bucket fileName\<rparr>, w'))))"

section \<open>Booking form submit handler (rewrite.md, src/pages/booking.astro)\<close>




definition booking_fileName :: "nat \<Rightarrow> File \<Rightarrow> string" where
  "booking_fileName t file = string_of_nat t @ ''-'' @ filter class_alnum (name file)"











text \<open>
  A concrete world for the closed examples: a clock, the stored objects and the inserted
  rows. An upload of the bytes \<open>''boom''\<close> rejects; an upload of more than eight bytes,
  or to a path already taken, is answered with an error; any other upload is stored
  under the path asked for. Every upload takes one millisecond.
\<close>

record demo_world =
  dw_now :: nat
  dw_objects :: "(string \<times> string) list"
  dw_rows :: "new_booking list"

definition demo_upload ::
  "string \<Rightarrow> string \<Rightarrow> File \<Rightarrow> demo_world \<Rightarrow> upload_response awaited \<times> demo_world" where
  "demo_upload bucket p f w =
     (if bytes f = ''boom'' then (Rejected ''Failed to fetch'', w\<lparr>dw_now := dw_now w + 1\<rparr>)
      else if 8 < length (bytes f) \<or> (bucket, p) \<in> set (dw_objects w)
      then (Fulfilled \<lparr>up_data = None, up_error = Some \<lparr>se_message = ''upload refused''\<rparr>\<rparr>,
            w\<lparr>dw_now := dw_now w + 1\<rparr>)
      else (Fulfilled \<lparr>up_data = Some \<lparr>path = p\<rparr>, up_error = None\<rparr>,
            w\<lparr>dw_now := dw_now w + 1, dw_objects := dw_objects w @ [(bucket, p)]\<rparr>))"

definition demo_services :: "demo_world services" where
  "demo_services =
     \<lparr>Date_now = dw_now,
      storage_upload = demo_upload,
      storage_getPublicUrl = (\<lambda>bucket p. ''https://cdn.test/'' @ bucket @ ''/'' @ p),
      bookings_insert = (\<lambda>row w. (None, w\<lparr>dw_rows := dw_rows w @ [row]\<rparr>))\<rparr>"


definition demo_w0 :: demo_world where
  "demo_w0 = \<lparr>dw_now = 1700000000000, dw_objects = [], dw_rows = []\<rparr>"

definition photo_ok :: File where
  "photo_ok = \<lparr>name = ''My Photo #1.png'', bytes = ''abc''\<rparr>"





section \<open>Concrete requests, rows and environments for the closed examples\<close>

definition req_dashboard :: request where
  "req_dashboard = \<lparr>pathname = ''/admin/dashboard'', cookies = Map.empty\<rparr>"

definition req_login :: request where
  "req_login = \<lparr>pathname = ''/admin/login'', cookies = Map.empty\<rparr>"

definition req_anything :: request where
  "req_anything =
     \<lparr>pathname = ''/admin/anything'',
      cookies = [''sb-access-token'' \<mapsto> ''good'', ''sb-refresh-token'' \<mapsto> ''fresh'']\<rparr>"

definition req_empty_token :: request where
  "req_empty_token =
     \<lparr>pathname = ''/admin/dashboard'',
      cookies = [''sb-access-token'' \<mapsto> [], ''sb-refresh-token'' \<mapsto> ''fresh'']\<rparr>"

text \<open>
  The statement "the log starts with the hydration from these two tokens": the call
  that precedes every other call of the run is \<open>setSession\<close> with them.
\<close>

definition hydrates_first :: "call list \<Rightarrow> string \<Rightarrow> string \<Rightarrow> bool" where
  "hydrates_first cs a r =
     (case cs of SetSession a' r' # _ \<Rightarrow> a' = a \<and> r' = r | _ \<Rightarrow> False)"

definition demo_booking :: Booking where
  "demo_booking =
     \<lparr>b_id = ''b1'', created_at = ''2024-05-01T10:00:00Z'', first_name = ''Ada'',
      last_name = ''Kay'', email = ''ada@kow.test'', phone = ''555-0100'',
      tattoo_idea = ''sleeve concept'', tattoo_placement = ''forearm'',
      tattoo_size = ''3-5 inches'', is_custom = True, reference_photos = [],
      status = Pending, admin_notes = Some ''bring reference'',
      client_access_token = Some ''tok-1'', agreed_price = None, scheduled_date = None\<rparr>"

definition demo_image :: ContentImage where
  "demo_image =
     \<lparr>ci_id = ''i1'', ci_created_at = ''2024-04-01T09:00:00Z'',
      ci_url = ''https://cdn.test/portfolio/rose.png'', ci_category = Portfolio,
      ci_title = ''Rose'', ci_description = None, ci_price = None, ci_size = None,
      ci_is_featured = False, ci_display_order = Some 1\<rparr>"

definition demo_setting :: SiteSetting where
  "demo_setting =
     \<lparr>ss_id = ''s1'', ss_key = ''contact_info'', ss_value = ''hello@kow.test'',
      ss_created_at = ''2024-03-01T08:00:00Z''\<rparr>"

definition demo_db :: backend where
  "demo_db =
     \<lparr>bookings = [demo_booking], content_images = [demo_image],
      site_settings = [demo_setting], fault = None\<rparr>"

definition timeout_error :: pg_error where
  "timeout_error =
     \<lparr>code = ''57014'', message = ''canceling statement due to statement timeout''\<rparr>"

definition demo_db_down :: backend where
  "demo_db_down = demo_db\<lparr>fault := Some timeout_error\<rparr>"

definition env_server :: env where
  "env_server =
     \<lparr>PUBLIC_SUPABASE_URL = Some ''https://kow.supabase.co'',
      PUBLIC_SUPABASE_ANON_KEY = Some ''anon-key'',
      SUPABASE_SERVICE_ROLE_KEY = Some ''service-key'',
      SSR = True\<rparr>"

definition env_unset :: env where
  "env_unset =
     \<lparr>PUBLIC_SUPABASE_URL = None, PUBLIC_SUPABASE_ANON_KEY = None,
      SUPABASE_SERVICE_ROLE_KEY = None, SSR = True\<rparr>"

definition env_anon_only :: env where
  "env_anon_only =
     \<lparr>PUBLIC_SUPABASE_URL = Some ''https://kow.supabase.co'',
      PUBLIC_SUPABASE_ANON_KEY = Some ''anon-key'',
      SUPABASE_SERVICE_ROLE_KEY = None,
      SSR = True\<rparr>"

definition env_browser :: env where
  "env_browser =
     \<lparr>PUBLIC_SUPABASE_URL = Some ''https://kow.supabase.co'',
      PUBLIC_SUPABASE_ANON_KEY = Some ''anon-key'',
      SUPABASE_SERVICE_ROLE_KEY = Some ''service-key'',
      SSR = False\<rparr>"

definition env_bad_url :: env where
  "env_bad_url =
     \<lparr>PUBLIC_SUPABASE_URL = Some ''kow.supabase.co'',
      PUBLIC_SUPABASE_ANON_KEY = Some ''anon-key'',
      SUPABASE_SERVICE_ROLE_KEY = Some ''service-key'',
      SSR = True\<rparr>"

definition title_patch :: ContentImage_patch where
  "title_patch =
     \<lparr>q_id = None, q_created_at = None, q_url = None, q_category = None,
      q_title = Some ''Peony'', q_description = None, q_price = None, q_size = None,
      q_is_featured = None, q_display_order = None\<rparr>"

definition price_patch :: Booking_patch where
  "price_patch = empty_patch\<lparr>p_agreed_price := Some 200\<rparr>"

section \<open>The authentication gate: what a run does\<close>

lemma hydrate_cases:
  "hydrate A req w =
     (case (cookies req ''sb-access-token'', cookies req ''sb-refresh-token'') of
        (Some a, Some r) \<Rightarrow>
          if a \<noteq> [] \<and> r \<noteq> [] then ([SetSession a r], setSession A a r w) else ([], w)
      | _ \<Rightarrow> ([], w))"
  by (simp add: hydrate_def split: option.splits)

lemma hydrate_log_no_next: "filter is_CallNext (fst (hydrate A req w)) = []"
  by (simp add: hydrate_def split: option.splits)

lemma onRequest_redirect_eq:
  "gated req \<Longrightarrow> active_session A req w = None \<Longrightarrow>
   onRequest A next req loc w =
     (Redirect ''/admin/login'',
      fst (hydrate A req w) @ [GetSession, RedirectTo ''/admin/login''],
      snd (getSession A (hydrated_state A req w)))"
  by (auto simp: onRequest_def gated_def active_session_def hydrated_state_def Let_def
           split: prod.splits option.splits)

lemma onRequest_session_eq:
  "gated req \<Longrightarrow> active_session A req w = Some s \<Longrightarrow>
   onRequest A next req loc w =
     (let loc' = loc\<lparr>locals_user := Some (user s), locals_session := Some s\<rparr>;
          w2 = snd (getSession A (hydrated_state A req w))
      in (Handled (fst (next loc' w2)),
          fst (hydrate A req w) @ [GetSession, CallNext loc'],
          snd (next loc' w2)))"
  by (auto simp: onRequest_def gated_def active_session_def hydrated_state_def Let_def
           split: prod.splits option.splits)

lemma onRequest_open_eq:
  "\<not> gated req \<Longrightarrow>
   onRequest A next req loc w =
     (let w1 = hydrated_state A req w
      in (Handled (fst (next loc w1)),
          fst (hydrate A req w) @ [CallNext loc],
          snd (next loc w1)))"
  by (auto simp: onRequest_def gated_def active_session_def hydrated_state_def Let_def
           split: prod.splits option.splits)

lemma gated_req_dashboard: "gated req_dashboard"
  by (simp add: gated_def req_dashboard_def startsWith_def)

lemma gated_req_anything: "gated req_anything"
  by (simp add: gated_def req_anything_def startsWith_def)

lemma not_gated_req_login: "\<not> gated req_login"
  by (simp add: gated_def req_login_def)

lemma active_session_req_dashboard: "active_session demo_auth req_dashboard None = None"
  by (simp add: active_session_def hydrated_state_def hydrate_def req_dashboard_def
        demo_auth_def)

lemma active_session_req_anything:
  "active_session demo_auth req_anything None = Some demo_session"
  by (simp add: active_session_def hydrated_state_def hydrate_def req_anything_def
        demo_auth_def)

text \<open>
  The login path is never redirected away from, with or without a session: the run
  goes straight to the handler, with the locals as they came.
\<close>

lemma login_path_proceeds:
  "onRequest demo_auth demo_next req_login no_locals None
     = (Handled ''page'', [CallNext no_locals], None)"
  unfolding onRequest_open_eq [OF not_gated_req_login]
  by (simp add: hydrated_state_def hydrate_def req_login_def demo_next_def Let_def)

lemma login_path_with_session_proceeds:
  "onRequest demo_auth demo_next (req_anything\<lparr>pathname := ''/admin/login''\<rparr>) no_locals None
     = (Handled ''page'', [SetSession ''good'' ''fresh'', CallNext no_locals],
        Some demo_session)"
  by (simp add: onRequest_def hydrate_def req_anything_def demo_auth_def demo_next_def)

text \<open>
  Claim C1. The gate answers with the redirect to \<open>/admin/login\<close> exactly when the path
  starts with \<open>/admin\<close>, is not \<open>/admin/login\<close>, and the client has no active session
  (after the hydration from the cookies); it has no other redirect. On a redirect the
  handler is not called: the log has no \<open>CallNext\<close>, and the whole run (response, calls,
  final client state) is given by the client and the request alone, the final state
  being the one the session check left. On a gated path with a session \<open>s\<close> the handler is called
  once, with locals whose user and session are those of \<open>s\<close>, and its result is the
  response.
\<close>

theorem onRequest_gate:
  "((fst (onRequest A next req loc w) = Redirect ''/admin/login'')
       = (gated req \<and> active_session A req w = None))
   \<and> (is_redirect (fst (onRequest A next req loc w))
       = (fst (onRequest A next req loc w) = Redirect ''/admin/login''))
   \<and> (is_redirect (fst (onRequest A next req loc w)) \<longrightarrow>
        filter is_CallNext (fst (snd (onRequest A next req loc w))) = []
        \<and> onRequest A next req loc w
            = (Redirect ''/admin/login'',
               fst (hydrate A req w) @ [GetSession, RedirectTo ''/admin/login''],
               snd (getSession A (hydrated_state A req w))))
   \<and> (\<forall>s. gated req \<and> active_session A req w = Some s \<longrightarrow>
        (let loc' = loc\<lparr>locals_user := Some (user s), locals_session := Some s\<rparr>;
             w2 = snd (getSession A (hydrated_state A req w))
         in fst (onRequest A next req loc w) = Handled (fst (next loc' w2))
            \<and> filter is_CallNext (fst (snd (onRequest A next req loc w))) = [CallNext loc']
            \<and> locals_user loc' = Some (user s) \<and> locals_session loc' = Some s))"
proof (cases "gated req")
  case False
  then show ?thesis
    by (simp add: onRequest_open_eq Let_def)
next
  case g: True
  show ?thesis
  proof (cases "active_session A req w")
    case None
    with g show ?thesis
      by (simp add: onRequest_redirect_eq hydrate_log_no_next)
  next
    case (Some s)
    with g show ?thesis
      by (simp add: onRequest_session_eq Let_def hydrate_log_no_next)
  qed
qed

text \<open>
  C1 at two requests: \<open>/admin/dashboard\<close> without cookies is redirected and the handler
  is not called; \<open>/admin/anything\<close> with valid cookies reaches the handler with the
  user and the session in the locals.
\<close>

theorem onRequest_gate_witness:
  "gated req_dashboard \<and> active_session demo_auth req_dashboard None = None
   \<and> fst (onRequest demo_auth demo_next req_dashboard no_locals None)
       = Redirect ''/admin/login''
   \<and> filter is_CallNext (fst (snd (onRequest demo_auth demo_next req_dashboard no_locals None)))
       = []
   \<and> gated req_anything \<and> active_session demo_auth req_anything None = Some demo_session
   \<and> fst (onRequest demo_auth demo_next req_anything no_locals None) = Handled ''page''
   \<and> filter is_CallNext (fst (snd (onRequest demo_auth demo_next req_anything no_locals None)))
       = [CallNext \<lparr>locals_user = Some (User ''kow''), locals_session = Some demo_session\<rparr>]"
proof -
  note g1 = gated_req_dashboard and s1 = active_session_req_dashboard
  note g2 = gated_req_anything and s2 = active_session_req_anything
  note t1 = onRequest_gate [of demo_auth demo_next req_dashboard no_locals None]
  note t2 = onRequest_gate [of demo_auth demo_next req_anything no_locals None]
  from t1 g1 s1
  have r1: "fst (onRequest demo_auth demo_next req_dashboard no_locals None)
              = Redirect ''/admin/login''"
    by blast
  with t1
  have n1: "filter is_CallNext
              (fst (snd (onRequest demo_auth demo_next req_dashboard no_locals None))) = []"
    by blast
  from t2 g2 s2
  have "let loc' = no_locals\<lparr>locals_user := Some (user demo_session),
                             locals_session := Some demo_session\<rparr>;
            w2 = snd (getSession demo_auth (hydrated_state demo_auth req_anything None))
        in fst (onRequest demo_auth demo_next req_anything no_locals None)
             = Handled (fst (demo_next loc' w2))
           \<and> filter is_CallNext
                (fst (snd (onRequest demo_auth demo_next req_anything no_locals None)))
              = [CallNext loc']
           \<and> locals_user loc' = Some (user demo_session)
           \<and> locals_session loc' = Some demo_session"
    by blast
  then have r2: "fst (onRequest demo_auth demo_next req_anything no_locals None)
                   = Handled ''page''"
    and n2: "filter is_CallNext
               (fst (snd (onRequest demo_auth demo_next req_anything no_locals None)))
             = [CallNext \<lparr>locals_user = Some (User ''kow''),
                          locals_session = Some demo_session\<rparr>]"
    by (simp_all add: Let_def demo_next_def no_locals_def demo_session_def)
  from g1 s1 r1 n1 g2 s2 r2 n2 show ?thesis by simp
qed

text \<open>
  Claim C3, as amended. When both token cookies are present with non-empty values, the
  first call of the run is \<open>setSession\<close> with these two tokens, on every path: the
  session check, the redirect and the handler all come after it, and the session check
  reads the client state that \<open>setSession\<close> produced.
\<close>

theorem onRequest_hydrates_first:
  assumes "cookies req ''sb-access-token'' = Some a"
    and "cookies req ''sb-refresh-token'' = Some r"
    and "a \<noteq> []" and "r \<noteq> []"
  shows "hydrates_first (fst (snd (onRequest A next req loc w))) a r
    \<and> fst (snd (onRequest A next req loc w)) =
        SetSession a r #
          (if gated req
           then [GetSession,
                 (case active_session A req w of
                    None \<Rightarrow> RedirectTo ''/admin/login''
                  | Some s \<Rightarrow>
                      CallNext (loc\<lparr>locals_user := Some (user s), locals_session := Some s\<rparr>))]
           else [CallNext loc])
    \<and> active_session A req w = fst (getSession A (setSession A a r w))"
proof -
  from assms have h: "hydrate A req w = ([SetSession a r], setSession A a r w)"
    by (simp add: hydrate_cases)
  then have act: "active_session A req w = fst (getSession A (setSession A a r w))"
    by (simp add: active_session_def hydrated_state_def)
  have log: "fst (snd (onRequest A next req loc w)) =
        SetSession a r #
          (if gated req
           then [GetSession,
                 (case active_session A req w of
                    None \<Rightarrow> RedirectTo ''/admin/login''
                  | Some s \<Rightarrow>
                      CallNext (loc\<lparr>locals_user := Some (user s), locals_session := Some s\<rparr>))]
           else [CallNext loc])"
  proof (cases "gated req")
    case False
    then show ?thesis by (simp add: onRequest_open_eq Let_def h)
  next
    case g: True
    show ?thesis
    proof (cases "active_session A req w")
      case None
      with g show ?thesis by (simp add: onRequest_redirect_eq h)
    next
      case (Some s)
      with g show ?thesis by (simp add: onRequest_session_eq Let_def h)
    qed
  qed
  from log have "hydrates_first (fst (snd (onRequest A next req loc w))) a r"
    by (simp add: hydrates_first_def)
  with log act show ?thesis by simp
qed

text \<open>The amended C3 at \<open>/admin/anything\<close> with both tokens set.\<close>

theorem onRequest_hydrates_first_witness:
  "cookies req_anything ''sb-access-token'' = Some ''good''
   \<and> cookies req_anything ''sb-refresh-token'' = Some ''fresh''
   \<and> hydrates_first (fst (snd (onRequest demo_auth demo_next req_anything no_locals None)))
       ''good'' ''fresh''
   \<and> fst (snd (onRequest demo_auth demo_next req_anything no_locals None))
       = [SetSession ''good'' ''fresh'', GetSession,
          CallNext \<lparr>locals_user = Some (User ''kow''), locals_session = Some demo_session\<rparr>]"
proof -
  have c1: "cookies req_anything ''sb-access-token'' = Some ''good''"
    and c2: "cookies req_anything ''sb-refresh-token'' = Some ''fresh''"
    by (simp_all add: req_anything_def)
  have n1: "''good'' \<noteq> []" and n2: "''fresh'' \<noteq> []" by simp_all
  note t = onRequest_hydrates_first [OF c1 c2 n1 n2, of demo_auth demo_next no_locals None]
  from t have hf:
    "hydrates_first (fst (snd (onRequest demo_auth demo_next req_anything no_locals None)))
       ''good'' ''fresh''"
    by (rule conjunct1)
  from t have "fst (snd (onRequest demo_auth demo_next req_anything no_locals None)) =
        SetSession ''good'' ''fresh'' #
          (if gated req_anything
           then [GetSession,
                 (case active_session demo_auth req_anything None of
                    None \<Rightarrow> RedirectTo ''/admin/login''
                  | Some s \<Rightarrow>
                      CallNext (no_locals\<lparr>locals_user := Some (user s),
                                          locals_session := Some s\<rparr>))]
           else [CallNext no_locals])"
    by (rule conjunct1 [OF conjunct2])
  then have lg: "fst (snd (onRequest demo_auth demo_next req_anything no_locals None))
       = [SetSession ''good'' ''fresh'', GetSession,
          CallNext \<lparr>locals_user = Some (User ''kow''), locals_session = Some demo_session\<rparr>]"
    by (simp add: gated_req_anything active_session_req_anything no_locals_def
          demo_session_def)
  from c1 c2 hf lg show ?thesis by simp
qed

text \<open>
  C3 as stated fails when a token cookie is present with an empty value: the guard
  \<open>accessToken && refreshToken\<close> is then false. At \<open>/admin/dashboard\<close> with an empty
  access token and a refresh token, both cookies are present, and the run checks the
  session and redirects without any \<open>setSession\<close>.
\<close>

theorem onRequest_hydrates_first_counterexample:
  "cookies req_empty_token ''sb-access-token'' = Some []
   \<and> cookies req_empty_token ''sb-refresh-token'' = Some ''fresh''
   \<and> \<not> hydrates_first
         (fst (snd (onRequest demo_auth demo_next req_empty_token no_locals None)))
         [] ''fresh''
   \<and> fst (snd (onRequest demo_auth demo_next req_empty_token no_locals None))
       = [GetSession, RedirectTo ''/admin/login'']"
  by (simp add: onRequest_def hydrate_def req_empty_token_def startsWith_def demo_auth_def
        hydrates_first_def)

section \<open>The row store: single-row answers\<close>

lemma single_empty:
  "single flt [] =
     \<lparr>data = None, error = Some (case flt of None \<Rightarrow> PGRST116 | Some e \<Rightarrow> e)\<rparr>"
  by (simp add: single_def split: option.splits)

lemma single_one: "single None [r] = \<lparr>data = Some r, error = None\<rparr>"
  by (simp add: single_def)

lemma single_error_cases:
  "error (single flt rows) = Some e \<Longrightarrow> flt = Some e \<or> (flt = None \<and> e = PGRST116)"
  by (auto simp: single_def split: option.splits list.splits)

lemma code_PGRST116: "code PGRST116 = ''PGRST116''"
  by (simp add: PGRST116_def)

lemma filter_key_unique:
  "distinct (map f rows) \<Longrightarrow> r \<in> set rows \<Longrightarrow> filter (\<lambda>x. f x = f r) rows = [r]"
proof (induction rows)
  case Nil
  then show ?case by simp
next
  case (Cons a rows)
  show ?case
  proof (cases "a = r")
    case True
    with Cons.prems have "f r \<notin> f ` set rows" by simp
    then have "\<forall>x \<in> set rows. f x \<noteq> f r" by (metis imageI)
    then have "filter (\<lambda>x. f x = f r) rows = []" by (simp add: filter_empty_conv)
    with True show ?thesis by simp
  next
    case False
    with Cons.prems have "r \<in> set rows" "f a \<noteq> f r" "distinct (map f rows)" by auto
    with Cons.IH show ?thesis by simp
  qed
qed

lemma update_single_no_hit:
  "(\<forall>r \<in> set rows. \<not> hit r) \<Longrightarrow>
   update_single flt hit f rows =
     (\<lparr>data = None, error = Some (case flt of None \<Rightarrow> PGRST116 | Some e \<Rightarrow> e)\<rparr>, rows)"
  by (simp add: update_single_def filter_empty_conv single_empty Let_def)

lemma update_single_one:
  "filter hit rows = [r] \<Longrightarrow>
   update_single None hit f rows
     = (\<lparr>data = Some (f r), error = None\<rparr>, map (\<lambda>x. if hit x then f x else x) rows)"
  by (simp add: update_single_def single_def Let_def)

lemma delete_where_no_hit:
  "(\<forall>r \<in> set rows. \<not> hit r) \<Longrightarrow>
   delete_where None hit rows = (\<lparr>data = Some [], error = None\<rparr>, rows)"
  by (simp add: delete_where_def filter_empty_conv plural_def Let_def filter_id_conv)

text \<open>Both lookups return the row when exactly one row matches and the backend answers.\<close>

lemma getBookingById_found:
  "fault db = None \<Longrightarrow> filter (\<lambda>b. b_id b = ident) (bookings db) = [b] \<Longrightarrow>
   getBookingById db ident = Inr (Some b)"
  by (simp add: getBookingById_def single_one)

lemma getBookingByToken_found:
  "fault db = None \<Longrightarrow>
   filter (\<lambda>b. client_access_token b = Some token) (bookings db) = [b] \<Longrightarrow>
   getBookingByToken db token = Inr (Some b)"
  by (simp add: getBookingByToken_def single_one)

lemma demo_db_lookups:
  "getBookingById demo_db ''b1'' = Inr (Some demo_booking)"
  "getBookingByToken demo_db ''tok-1'' = Inr (Some demo_booking)"
  by (simp_all add: getBookingById_def getBookingByToken_def single_one demo_db_def
        demo_booking_def)

text \<open>
  Claim C4. For an id that no booking row has, \<open>getBookingById\<close> throws: the backend's
  fault if the request failed, the not-single error \<open>PGRST116\<close> otherwise. For a token
  that no booking row has, \<open>getBookingByToken\<close> returns null when the backend answers
  (and when it fails with the code \<open>PGRST116\<close>), and throws the fault otherwise.
  Whatever the table holds, \<open>getBookingByToken\<close> throws only a backend fault whose
  code is not \<open>PGRST116\<close>.
\<close>

theorem booking_lookup_asymmetry:
  "((\<forall>b \<in> set (bookings db). b_id b \<noteq> ident) \<longrightarrow>
      getBookingById db ident = Inl (case fault db of None \<Rightarrow> PGRST116 | Some e \<Rightarrow> e))
   \<and> ((\<forall>b \<in> set (bookings db). client_access_token b \<noteq> Some token) \<longrightarrow>
      getBookingByToken db token =
        (case fault db of
           None \<Rightarrow> Inr None
         | Some e \<Rightarrow> if code e = ''PGRST116'' then Inr None else Inl e))
   \<and> (\<forall>e. getBookingByToken db token = Inl e \<longrightarrow>
         fault db = Some e \<and> code e \<noteq> ''PGRST116'')"
proof (intro conjI impI allI)
  assume "\<forall>b \<in> set (bookings db). b_id b \<noteq> ident"
  then have "filter (\<lambda>b. b_id b = ident) (bookings db) = []"
    by (simp add: filter_empty_conv)
  then show "getBookingById db ident
               = Inl (case fault db of None \<Rightarrow> PGRST116 | Some e \<Rightarrow> e)"
    by (simp add: getBookingById_def single_empty)
next
  assume "\<forall>b \<in> set (bookings db). client_access_token b \<noteq> Some token"
  then have "filter (\<lambda>b. client_access_token b = Some token) (bookings db) = []"
    by (simp add: filter_empty_conv)
  then show "getBookingByToken db token =
        (case fault db of
           None \<Rightarrow> Inr None
         | Some e \<Rightarrow> if code e = ''PGRST116'' then Inr None else Inl e)"
    by (simp add: getBookingByToken_def single_empty code_PGRST116 split: option.splits)
next
  fix e
  assume a: "getBookingByToken db token = Inl e"
  let ?resp = "single (fault db)
                 (filter (\<lambda>b. client_access_token b = Some token) (bookings db))"
  from a have "error ?resp = Some e \<and> code e \<noteq> ''PGRST116''"
    by (auto simp: getBookingByToken_def Let_def split: option.splits if_splits)
  then show "fault db = Some e" "code e \<noteq> ''PGRST116''"
    using single_error_cases [of "fault db" _ e] code_PGRST116 by auto
qed

text \<open>
  C4 on the demo store, which has one booking \<open>b1\<close> with token \<open>tok-1\<close>: the id
  \<open>missing\<close> throws, the token \<open>nope\<close> gives null; with the backend timing out the
  token lookup throws the timeout.
\<close>

theorem booking_lookup_asymmetry_witness:
  "list_all (\<lambda>b. b_id b \<noteq> ''missing'') (bookings demo_db)
   \<and> getBookingById demo_db ''missing'' = Inl PGRST116
   \<and> list_all (\<lambda>b. client_access_token b \<noteq> Some ''nope'') (bookings demo_db)
   \<and> getBookingByToken demo_db ''nope'' = Inr None
   \<and> getBookingByToken demo_db_down ''nope'' = Inl timeout_error
   \<and> fault demo_db_down = Some timeout_error \<and> code timeout_error \<noteq> ''PGRST116''"
proof -
  have h1: "\<forall>b \<in> set (bookings demo_db). b_id b \<noteq> ''missing''"
    and h2: "\<forall>b \<in> set (bookings demo_db). client_access_token b \<noteq> Some ''nope''"
    and h3: "\<forall>b \<in> set (bookings demo_db_down). client_access_token b \<noteq> Some ''nope''"
    by (simp_all add: demo_db_def demo_db_down_def demo_booking_def)
  have f1: "fault demo_db = None" and f2: "fault demo_db_down = Some timeout_error"
    and c: "code timeout_error \<noteq> ''PGRST116''"
    by (simp_all add: demo_db_def demo_db_down_def timeout_error_def)
  from booking_lookup_asymmetry [of demo_db "''missing''" "''nope''"] h1 h2 f1
  have r1: "getBookingById demo_db ''missing'' = Inl PGRST116"
    and r2: "getBookingByToken demo_db ''nope'' = Inr None"
    by simp_all
  from booking_lookup_asymmetry [of demo_db_down "''missing''" "''nope''"] h3 f2 c
  have r3: "getBookingByToken demo_db_down ''nope'' = Inl timeout_error"
    by simp
  from h1 h2 r1 r2 r3 f2 c show ?thesis by (simp add: list_all_iff)
qed

text \<open>
  Claim C5. \<open>getSiteSetting\<close> returns null (a result, not a throw) when the backend
  answers and no row has the key; it returns the stored value of the row with the key
  (keys are unique in the table); it throws every backend fault whose code is not
  \<open>PGRST116\<close>, and it throws nothing else.
\<close>

theorem getSiteSetting_null_value_error:
  "(fault db = None \<and> (\<forall>r \<in> set (site_settings db). ss_key r \<noteq> k) \<longrightarrow>
      getSiteSetting db k = Inr None)
   \<and> (\<forall>r. fault db = None \<and> distinct (map ss_key (site_settings db))
          \<and> r \<in> set (site_settings db) \<and> ss_key r = k \<longrightarrow>
      getSiteSetting db k = Inr (Some (ss_value r)))
   \<and> (\<forall>e. fault db = Some e \<and> code e \<noteq> ''PGRST116'' \<longrightarrow> getSiteSetting db k = Inl e)
   \<and> (\<forall>e. getSiteSetting db k = Inl e \<longrightarrow> fault db = Some e \<and> code e \<noteq> ''PGRST116'')"
proof (intro conjI impI allI)
  assume "fault db = None \<and> (\<forall>r \<in> set (site_settings db). ss_key r \<noteq> k)"
  then have "fault db = None" "filter (\<lambda>r. ss_key r = k) (site_settings db) = []"
    by (simp_all add: filter_empty_conv)
  then show "getSiteSetting db k = Inr None"
    by (simp add: getSiteSetting_def single_empty code_PGRST116)
next
  fix r
  assume a: "fault db = None \<and> distinct (map ss_key (site_settings db))
          \<and> r \<in> set (site_settings db) \<and> ss_key r = k"
  then have "filter (\<lambda>x. ss_key x = k) (site_settings db) = [r]"
    using filter_key_unique [of ss_key "site_settings db" r] by auto
  with a show "getSiteSetting db k = Inr (Some (ss_value r))"
    by (simp add: getSiteSetting_def single_one)
next
  fix e
  assume "fault db = Some e \<and> code e \<noteq> ''PGRST116''"
  then show "getSiteSetting db k = Inl e"
    by (simp add: getSiteSetting_def single_def)
next
  fix e
  assume a: "getSiteSetting db k = Inl e"
  let ?resp = "single (fault db)
                 (map ss_value (filter (\<lambda>r. ss_key r = k) (site_settings db)))"
  from a have "error ?resp = Some e \<and> code e \<noteq> ''PGRST116''"
    by (auto simp: getSiteSetting_def Let_def split: option.splits if_splits)
  then show "fault db = Some e" "code e \<noteq> ''PGRST116''"
    using single_error_cases [of "fault db" _ e] code_PGRST116 by auto
qed

text \<open>
  C5 on the demo store, whose only setting is \<open>contact_info\<close>: \<open>policy_text\<close> gives
  null, \<open>contact_info\<close> gives its value, and a timeout is thrown.
\<close>

theorem getSiteSetting_null_value_error_witness:
  "fault demo_db = None
   \<and> list_all (\<lambda>r. ss_key r \<noteq> ''policy_text'') (site_settings demo_db)
   \<and> getSiteSetting demo_db ''policy_text'' = Inr None
   \<and> distinct (map ss_key (site_settings demo_db))
   \<and> demo_setting \<in> set (site_settings demo_db) \<and> ss_key demo_setting = ''contact_info''
   \<and> getSiteSetting demo_db ''contact_info'' = Inr (Some ''hello@kow.test'')
   \<and> fault demo_db_down = Some timeout_error \<and> code timeout_error \<noteq> ''PGRST116''
   \<and> getSiteSetting demo_db_down ''contact_info'' = Inl timeout_error"
proof -
  have f1: "fault demo_db = None"
    and h1: "\<forall>r \<in> set (site_settings demo_db). ss_key r \<noteq> ''policy_text''"
    and h2: "distinct (map ss_key (site_settings demo_db))"
    and h3: "demo_setting \<in> set (site_settings demo_db)"
    and h4: "ss_key demo_setting = ''contact_info''"
    and v: "ss_value demo_setting = ''hello@kow.test''"
    by (simp_all add: demo_db_def demo_setting_def)
  have f2: "fault demo_db_down = Some timeout_error"
    and c: "code timeout_error \<noteq> ''PGRST116''"
    by (simp_all add: demo_db_down_def timeout_error_def)
  from getSiteSetting_null_value_error [of demo_db "''policy_text''"] f1 h1
  have r1: "getSiteSetting demo_db ''policy_text'' = Inr None"
    by blast
  from getSiteSetting_null_value_error [of demo_db "''contact_info''"] f1 h2 h3 h4
  have "getSiteSetting demo_db ''contact_info'' = Inr (Some (ss_value demo_setting))"
    by blast
  with v have r2: "getSiteSetting demo_db ''contact_info'' = Inr (Some ''hello@kow.test'')"
    by simp
  from getSiteSetting_null_value_error [of demo_db_down "''contact_info''"] f2 c
  have r3: "getSiteSetting demo_db_down ''contact_info'' = Inl timeout_error"
    by blast
  from f1 h1 r1 h2 h3 h4 r2 f2 c r3 show ?thesis by (simp add: list_all_iff)
qed

text \<open>
  Claim C10. For an id that no row has, \<open>updateContentImage\<close>, \<open>updateBooking\<close> and
  \<open>updateBookingStatus\<close> throw (the fault, or \<open>PGRST116\<close> from \<open>.single()\<close> on the empty
  result) and leave the store as it was; \<open>deleteContentImage\<close> with such an id, the
  backend answering, returns without error and leaves the store as it was.
\<close>

theorem update_absent_id_throws:
  "((\<forall>c \<in> set (content_images db). ci_id c \<noteq> ident) \<longrightarrow>
      updateContentImage db ident cu
        = (Inl (case fault db of None \<Rightarrow> PGRST116 | Some e \<Rightarrow> e), db))
   \<and> ((\<forall>b \<in> set (bookings db). b_id b \<noteq> ident) \<longrightarrow>
      updateBooking db ident bu
        = (Inl (case fault db of None \<Rightarrow> PGRST116 | Some e \<Rightarrow> e), db)
      \<and> updateBookingStatus db ident st adminNotes
        = (Inl (case fault db of None \<Rightarrow> PGRST116 | Some e \<Rightarrow> e), db))
   \<and> ((\<forall>c \<in> set (content_images db). ci_id c \<noteq> ident) \<and> fault db = None \<longrightarrow>
      deleteContentImage db ident = (Inr (), db))"
  by (simp add: updateContentImage_def updateBooking_def updateBookingStatus_def
        deleteContentImage_def update_single_no_hit delete_where_no_hit)

text \<open>C10 on the demo store with the id \<open>missing\<close>.\<close>

theorem update_absent_id_throws_witness:
  "list_all (\<lambda>c. ci_id c \<noteq> ''missing'') (content_images demo_db)
   \<and> list_all (\<lambda>b. b_id b \<noteq> ''missing'') (bookings demo_db)
   \<and> fault demo_db = None
   \<and> updateContentImage demo_db ''missing'' title_patch = (Inl PGRST116, demo_db)
   \<and> updateBooking demo_db ''missing'' price_patch = (Inl PGRST116, demo_db)
   \<and> updateBookingStatus demo_db ''missing'' Accepted None = (Inl PGRST116, demo_db)
   \<and> deleteContentImage demo_db ''missing'' = (Inr (), demo_db)"
proof -
  have h1: "\<forall>c \<in> set (content_images demo_db). ci_id c \<noteq> ''missing''"
    and h2: "\<forall>b \<in> set (bookings demo_db). b_id b \<noteq> ''missing''"
    and f: "fault demo_db = None"
    by (simp_all add: demo_db_def demo_image_def demo_booking_def)
  from update_absent_id_throws
         [of demo_db "''missing''" title_patch price_patch Accepted None] h1 h2 f
  show ?thesis by (simp add: list_all_iff)
qed

section \<open>The status update and its patch\<close>

lemma status_updates_eq:
  "status_updates st adminNotes
     = empty_patch\<lparr>p_status := Some st, p_admin_notes := adminNotes\<rparr>"
  by (cases adminNotes) (simp_all add: status_updates_def empty_patch_def)

lemma patch_status_only:
  "patch_Booking (empty_patch\<lparr>p_status := Some st, p_admin_notes := None\<rparr>) b
     = b\<lparr>status := st\<rparr>"
  by (simp add: patch_Booking_def empty_patch_def)

lemma patch_status_notes:
  "patch_Booking (empty_patch\<lparr>p_status := Some st, p_admin_notes := Some n\<rparr>) b
     = b\<lparr>status := st, admin_notes := Some n\<rparr>"
  by (simp add: patch_Booking_def empty_patch_def)

text \<open>
  Claim C7. The patch that \<open>updateBookingStatus\<close> sends is the empty patch with the
  status set and with \<open>admin_notes\<close> equal to the argument: present exactly when the
  argument is supplied, and no other field present. Stored on a row, the patch without
  notes changes the status only (the notes stay as they were); with notes it changes
  the status and the notes only. Through the function, on the one row with the id:
  the returned row and the stored row are the old row with these changes.
\<close>

theorem updateBookingStatus_patch_frame:
  "status_updates st adminNotes
     = empty_patch\<lparr>p_status := Some st, p_admin_notes := adminNotes\<rparr>
   \<and> ((p_admin_notes (status_updates st adminNotes) \<noteq> None) = (adminNotes \<noteq> None))
   \<and> patch_Booking (status_updates st None) b = b\<lparr>status := st\<rparr>
   \<and> admin_notes (patch_Booking (status_updates st None) b) = admin_notes b
   \<and> (\<forall>n. patch_Booking (status_updates st (Some n)) b
            = b\<lparr>status := st, admin_notes := Some n\<rparr>)
   \<and> (fault db = None \<and> filter (\<lambda>x. b_id x = ident) (bookings db) = [b] \<longrightarrow>
        updateBookingStatus db ident st None
          = (Inr (Some (b\<lparr>status := st\<rparr>)),
             db\<lparr>bookings := map (\<lambda>x. if b_id x = ident then x\<lparr>status := st\<rparr> else x)
                               (bookings db)\<rparr>)
        \<and> (\<forall>n. updateBookingStatus db ident st (Some n)
              = (Inr (Some (b\<lparr>status := st, admin_notes := Some n\<rparr>)),
                 db\<lparr>bookings :=
                      map (\<lambda>x. if b_id x = ident
                                then x\<lparr>status := st, admin_notes := Some n\<rparr> else x)
                        (bookings db)\<rparr>)))"
proof (intro conjI allI impI)
  show "status_updates st adminNotes
          = empty_patch\<lparr>p_status := Some st, p_admin_notes := adminNotes\<rparr>"
    by (rule status_updates_eq)
  show "(p_admin_notes (status_updates st adminNotes) \<noteq> None) = (adminNotes \<noteq> None)"
    by (simp add: status_updates_eq)
  show "patch_Booking (status_updates st None) b = b\<lparr>status := st\<rparr>"
    by (simp add: status_updates_eq patch_status_only)
  show "admin_notes (patch_Booking (status_updates st None) b) = admin_notes b"
    by (simp add: status_updates_eq patch_status_only)
  show "patch_Booking (status_updates st (Some n)) b
          = b\<lparr>status := st, admin_notes := Some n\<rparr>" for n
    by (simp add: status_updates_eq patch_status_notes)
next
  assume a: "fault db = None \<and> filter (\<lambda>x. b_id x = ident) (bookings db) = [b]"
  have p: "patch_Booking (status_updates st None) = (\<lambda>x. x\<lparr>status := st\<rparr>)"
    by (rule ext) (simp add: status_updates_eq patch_status_only)
  from a show "updateBookingStatus db ident st None
          = (Inr (Some (b\<lparr>status := st\<rparr>)),
             db\<lparr>bookings := map (\<lambda>x. if b_id x = ident then x\<lparr>status := st\<rparr> else x)
                               (bookings db)\<rparr>)"
    by (simp add: updateBookingStatus_def update_single_one p)
next
  fix n
  assume a: "fault db = None \<and> filter (\<lambda>x. b_id x = ident) (bookings db) = [b]"
  have p: "patch_Booking (status_updates st (Some n))
             = (\<lambda>x. x\<lparr>status := st, admin_notes := Some n\<rparr>)"
    by (rule ext) (simp add: status_updates_eq patch_status_notes)
  from a show "updateBookingStatus db ident st (Some n)
              = (Inr (Some (b\<lparr>status := st, admin_notes := Some n\<rparr>)),
                 db\<lparr>bookings :=
                      map (\<lambda>x. if b_id x = ident
                                then x\<lparr>status := st, admin_notes := Some n\<rparr> else x)
                        (bookings db)\<rparr>)"
    by (simp add: updateBookingStatus_def update_single_one p)
qed

text \<open>
  C7 on the demo store: accepting booking \<open>b1\<close> without notes returns and stores the
  booking with the new status and its old notes.
\<close>

theorem updateBookingStatus_patch_frame_witness:
  "fault demo_db = None
   \<and> filter (\<lambda>x. b_id x = ''b1'') (bookings demo_db) = [demo_booking]
   \<and> updateBookingStatus demo_db ''b1'' Accepted None
       = (Inr (Some (demo_booking\<lparr>status := Accepted\<rparr>)),
          demo_db\<lparr>bookings := [demo_booking\<lparr>status := Accepted\<rparr>]\<rparr>)
   \<and> admin_notes (demo_booking\<lparr>status := Accepted\<rparr>) = Some ''bring reference''"
proof -
  have f: "fault demo_db = None"
    and h: "filter (\<lambda>x. b_id x = ''b1'') (bookings demo_db) = [demo_booking]"
    and b: "bookings demo_db = [demo_booking]" and i: "b_id demo_booking = ''b1''"
    and n: "admin_notes (demo_booking\<lparr>status := Accepted\<rparr>) = Some ''bring reference''"
    by (simp_all add: demo_db_def demo_booking_def)
  from updateBookingStatus_patch_frame [of Accepted None demo_booking demo_db "''b1''"] f h
  have "updateBookingStatus demo_db ''b1'' Accepted None
          = (Inr (Some (demo_booking\<lparr>status := Accepted\<rparr>)),
             demo_db\<lparr>bookings :=
                        map (\<lambda>x. if b_id x = ''b1'' then x\<lparr>status := Accepted\<rparr> else x)
                          (bookings demo_db)\<rparr>)"
    by blast
  then have "updateBookingStatus demo_db ''b1'' Accepted None
       = (Inr (Some (demo_booking\<lparr>status := Accepted\<rparr>)),
          demo_db\<lparr>bookings := [demo_booking\<lparr>status := Accepted\<rparr>]\<rparr>)"
    by (simp add: b i)
  with f h n show ?thesis by simp
qed

section \<open>The client binding\<close>

lemma or_string_unset: "unset v \<Longrightarrow> or_string v [] = []"
  by (auto simp: unset_def or_string_def)

lemma or_string_set: "v = Some s \<Longrightarrow> s \<noteq> [] \<Longrightarrow> or_string v [] = s"
  by (simp add: or_string_def)

lemma or_string_empty_iff: "(or_string v [] = []) = unset v"
  by (cases v) (auto simp: unset_def or_string_def)

lemma supabaseUrl_empty_iff: "(supabaseUrl e = []) = unset (PUBLIC_SUPABASE_URL e)"
  by (simp add: supabaseUrl_def or_string_empty_iff)

lemma supabaseKey_cases:
  "supabaseKey e =
     (if SSR e
      then (if unset (SUPABASE_SERVICE_ROLE_KEY e)
            then or_string (PUBLIC_SUPABASE_ANON_KEY e) []
            else or_string (SUPABASE_SERVICE_ROLE_KEY e) [])
      else or_string (PUBLIC_SUPABASE_ANON_KEY e) [])"
  by (simp add: supabaseKey_def isServer_def supabaseServiceKey_def supabaseAnonKey_def
        or_string_def or_string_empty_iff [symmetric])

lemma supabaseKey_empty_iff:
  "(supabaseKey e = []) =
     (if SSR e
      then unset (SUPABASE_SERVICE_ROLE_KEY e) \<and> unset (PUBLIC_SUPABASE_ANON_KEY e)
      else unset (PUBLIC_SUPABASE_ANON_KEY e))"
  by (simp add: supabaseKey_cases or_string_empty_iff)

lemma unconfigured_iff: "unconfigured e = (supabaseUrl e = [] \<or> supabaseKey e = [])"
  by (simp add: unconfigured_def supabaseUrl_empty_iff supabaseKey_empty_iff)

lemma supabase_unconfigured:
  "accepts ''https://placeholder.supabase.co'' \<Longrightarrow> unconfigured e \<Longrightarrow>
   supabase accepts e = Some placeholder_client"
  by (auto simp: unconfigured_iff supabase_def createClient_def placeholder_client_def)

lemma supabase_configured:
  "\<not> unconfigured e \<Longrightarrow>
   supabase accepts e =
     (if accepts (supabaseUrl e)
      then Some \<lparr>client_url = supabaseUrl e, client_key = supabaseKey e,
                 client_auth =
                   Some \<lparr>persistSession = \<not> SSR e, autoRefreshToken = \<not> SSR e,
                         detectSessionInUrl = \<not> SSR e\<rparr>\<rparr>
      else None)"
  by (simp add: unconfigured_iff supabase_def createClient_def isServer_def)

text \<open>
  A URL that is set and that the library does not accept makes the module load throw,
  on the server and in the browser.
\<close>

lemma supabase_rejected_url_throws:
  "PUBLIC_SUPABASE_URL e = Some u \<Longrightarrow> u \<noteq> [] \<Longrightarrow> \<not> accepts u \<Longrightarrow>
   PUBLIC_SUPABASE_ANON_KEY e = Some a \<Longrightarrow> a \<noteq> [] \<Longrightarrow>
   supabase accepts e = None"
proof -
  assume u: "PUBLIC_SUPABASE_URL e = Some u" "u \<noteq> []" "\<not> accepts u"
    and a: "PUBLIC_SUPABASE_ANON_KEY e = Some a" "a \<noteq> []"
  from u a have "\<not> unconfigured e"
    by (simp add: unconfigured_def unset_def)
  moreover from u have "supabaseUrl e = u"
    by (simp add: supabaseUrl_def or_string_set)
  ultimately show ?thesis
    using u(3) by (simp add: supabase_configured)
qed

text \<open>
  Claim C8, as amended. The library accepting the placeholder URL, the module load
  does not throw when the environment is not configured, and the client is then the
  placeholder one, created without session options, so that it runs with the
  library's defaults for them. When the URL is set, non-empty and accepted by the
  library: on the server the client has the service-role key when that is set and
  non-empty, and the anon key when the service-role key is unset and the anon key is
  set; in the browser it has the anon key; and its three session options are off on the
  server and on in the browser. The module load throws exactly when the environment
  is configured and the library does not accept the URL.
\<close>

theorem supabase_client_binding:
  assumes "accepts ''https://placeholder.supabase.co''"
  shows "(unconfigured e \<longrightarrow> supabase accepts e = Some placeholder_client)
    \<and> client_auth placeholder_client = None
    \<and> effective_auth placeholder_client = default_auth_options
    \<and> (\<forall>u k. PUBLIC_SUPABASE_URL e = Some u \<and> u \<noteq> [] \<and> accepts u \<and> SSR e
              \<and> SUPABASE_SERVICE_ROLE_KEY e = Some k \<and> k \<noteq> [] \<longrightarrow>
          supabase accepts e =
            Some \<lparr>client_url = u, client_key = k,
                  client_auth =
                    Some \<lparr>persistSession = False, autoRefreshToken = False,
                          detectSessionInUrl = False\<rparr>\<rparr>)
    \<and> (\<forall>u a. PUBLIC_SUPABASE_URL e = Some u \<and> u \<noteq> [] \<and> accepts u \<and> SSR e
              \<and> unset (SUPABASE_SERVICE_ROLE_KEY e)
              \<and> PUBLIC_SUPABASE_ANON_KEY e = Some a \<and> a \<noteq> [] \<longrightarrow>
          supabase accepts e =
            Some \<lparr>client_url = u, client_key = a,
                  client_auth =
                    Some \<lparr>persistSession = False, autoRefreshToken = False,
                          detectSessionInUrl = False\<rparr>\<rparr>)
    \<and> (\<forall>u a. PUBLIC_SUPABASE_URL e = Some u \<and> u \<noteq> [] \<and> accepts u \<and> \<not> SSR e
              \<and> PUBLIC_SUPABASE_ANON_KEY e = Some a \<and> a \<noteq> [] \<longrightarrow>
          supabase accepts e =
            Some \<lparr>client_url = u, client_key = a,
                  client_auth =
                    Some \<lparr>persistSession = True, autoRefreshToken = True,
                          detectSessionInUrl = True\<rparr>\<rparr>)
    \<and> ((supabase accepts e = None)
         = (\<not> unconfigured e \<and> (\<exists>u. PUBLIC_SUPABASE_URL e = Some u \<and> \<not> accepts u)))"
proof (intro conjI allI impI)
  assume "unconfigured e"
  with assms show "supabase accepts e = Some placeholder_client"
    by (rule supabase_unconfigured)
next
  show "client_auth placeholder_client = None"
    by (simp add: placeholder_client_def)
  show "effective_auth placeholder_client = default_auth_options"
    by (simp add: effective_auth_def placeholder_client_def)
next
  fix u k
  assume a: "PUBLIC_SUPABASE_URL e = Some u \<and> u \<noteq> [] \<and> accepts u \<and> SSR e
              \<and> SUPABASE_SERVICE_ROLE_KEY e = Some k \<and> k \<noteq> []"
  then have n: "\<not> unconfigured e"
    by (simp add: unconfigured_def unset_def)
  from a have "supabaseUrl e = u" "supabaseKey e = k"
    by (simp_all add: supabaseUrl_def supabaseKey_cases or_string_set unset_def)
  with a show "supabase accepts e =
            Some \<lparr>client_url = u, client_key = k,
                  client_auth =
                    Some \<lparr>persistSession = False, autoRefreshToken = False,
                          detectSessionInUrl = False\<rparr>\<rparr>"
    by (simp add: supabase_configured [OF n])
next
  fix u a
  assume a: "PUBLIC_SUPABASE_URL e = Some u \<and> u \<noteq> [] \<and> accepts u \<and> SSR e
              \<and> unset (SUPABASE_SERVICE_ROLE_KEY e)
              \<and> PUBLIC_SUPABASE_ANON_KEY e = Some a \<and> a \<noteq> []"
  then have n: "\<not> unconfigured e"
    by (simp add: unconfigured_def unset_def)
  from a have "supabaseUrl e = u" "supabaseKey e = a"
    by (simp_all add: supabaseUrl_def supabaseKey_cases or_string_set)
  with a show "supabase accepts e =
            Some \<lparr>client_url = u, client_key = a,
                  client_auth =
                    Some \<lparr>persistSession = False, autoRefreshToken = False,
                          detectSessionInUrl = False\<rparr>\<rparr>"
    by (simp add: supabase_configured [OF n])
next
  fix u a
  assume a: "PUBLIC_SUPABASE_URL e = Some u \<and> u \<noteq> [] \<and> accepts u \<and> \<not> SSR e
              \<and> PUBLIC_SUPABASE_ANON_KEY e = Some a \<and> a \<noteq> []"
  then have n: "\<not> unconfigured e"
    by (simp add: unconfigured_def unset_def)
  from a have "supabaseUrl e = u" "supabaseKey e = a"
    by (simp_all add: supabaseUrl_def supabaseKey_cases or_string_set)
  with a show "supabase accepts e =
            Some \<lparr>client_url = u, client_key = a,
                  client_auth =
                    Some \<lparr>persistSession = True, autoRefreshToken = True,
                          detectSessionInUrl = True\<rparr>\<rparr>"
    by (simp add: supabase_configured [OF n])
next
  show "(supabase accepts e = None)
         = (\<not> unconfigured e \<and> (\<exists>u. PUBLIC_SUPABASE_URL e = Some u \<and> \<not> accepts u))"
  proof (cases "unconfigured e")
    case True
    with assms show ?thesis
      by (simp add: supabase_unconfigured)
  next
    case False
    then have "\<not> unset (PUBLIC_SUPABASE_URL e)"
      by (simp add: unconfigured_def)
    then obtain u where u: "PUBLIC_SUPABASE_URL e = Some u" "u \<noteq> []"
      by (cases "PUBLIC_SUPABASE_URL e") (auto simp: unset_def)
    then have "supabaseUrl e = u"
      by (simp add: supabaseUrl_def or_string_set)
    with False u show ?thesis
      by (simp add: supabase_configured)
  qed
qed

text \<open>
  The amended C8 at five environments: nothing set; a server with URL and both keys;
  a server with URL and the anon key only; a browser with URL and both keys; a server
  whose URL has no scheme.
\<close>

theorem supabase_client_binding_witness:
  "demo_accepts ''https://placeholder.supabase.co''
   \<and> unconfigured env_unset
   \<and> supabase demo_accepts env_unset = Some placeholder_client
   \<and> supabase demo_accepts env_server =
       Some \<lparr>client_url = ''https://kow.supabase.co'', client_key = ''service-key'',
             client_auth =
               Some \<lparr>persistSession = False, autoRefreshToken = False,
                     detectSessionInUrl = False\<rparr>\<rparr>
   \<and> unset (SUPABASE_SERVICE_ROLE_KEY env_anon_only)
   \<and> supabase demo_accepts env_anon_only =
       Some \<lparr>client_url = ''https://kow.supabase.co'', client_key = ''anon-key'',
             client_auth =
               Some \<lparr>persistSession = False, autoRefreshToken = False,
                     detectSessionInUrl = False\<rparr>\<rparr>
   \<and> supabase demo_accepts env_browser =
       Some \<lparr>client_url = ''https://kow.supabase.co'', client_key = ''anon-key'',
             client_auth =
               Some \<lparr>persistSession = True, autoRefreshToken = True,
                     detectSessionInUrl = True\<rparr>\<rparr>
   \<and> \<not> unconfigured env_bad_url \<and> \<not> demo_accepts ''kow.supabase.co''
   \<and> supabase demo_accepts env_bad_url = None"
proof -
  have ok: "demo_accepts ''https://placeholder.supabase.co''"
    and ok2: "demo_accepts ''https://kow.supabase.co''"
    and bad: "\<not> demo_accepts ''kow.supabase.co''"
    by (simp_all add: demo_accepts_def startsWith_def)
  have u0: "unconfigured env_unset"
    by (simp add: unconfigured_def unset_def env_unset_def)
  have s: "PUBLIC_SUPABASE_URL env_server = Some ''https://kow.supabase.co''"
      "SSR env_server" "SUPABASE_SERVICE_ROLE_KEY env_server = Some ''service-key''"
    by (simp_all add: env_server_def)
  have a: "PUBLIC_SUPABASE_URL env_anon_only = Some ''https://kow.supabase.co''"
      "SSR env_anon_only" "unset (SUPABASE_SERVICE_ROLE_KEY env_anon_only)"
      "PUBLIC_SUPABASE_ANON_KEY env_anon_only = Some ''anon-key''"
    by (simp_all add: env_anon_only_def unset_def)
  have b: "PUBLIC_SUPABASE_URL env_browser = Some ''https://kow.supabase.co''"
      "\<not> SSR env_browser" "PUBLIC_SUPABASE_ANON_KEY env_browser = Some ''anon-key''"
    by (simp_all add: env_browser_def)
  have x: "\<not> unconfigured env_bad_url"
      "PUBLIC_SUPABASE_URL env_bad_url = Some ''kow.supabase.co''"
    by (simp_all add: unconfigured_def unset_def env_bad_url_def)
  from supabase_client_binding [where accepts = demo_accepts and e = env_unset, OF ok] u0
  have r0: "supabase demo_accepts env_unset = Some placeholder_client"
    by blast
  from supabase_client_binding [where accepts = demo_accepts and e = env_server, OF ok] s ok2
  have r1: "supabase demo_accepts env_server =
       Some \<lparr>client_url = ''https://kow.supabase.co'', client_key = ''service-key'',
             client_auth =
               Some \<lparr>persistSession = False, autoRefreshToken = False,
                     detectSessionInUrl = False\<rparr>\<rparr>"
    by simp
  from supabase_client_binding [where accepts = demo_accepts and e = env_anon_only, OF ok] a ok2
  have r2: "supabase demo_accepts env_anon_only =
       Some \<lparr>client_url = ''https://kow.supabase.co'', client_key = ''anon-key'',
             client_auth =
               Some \<lparr>persistSession = False, autoRefreshToken = False,
                     detectSessionInUrl = False\<rparr>\<rparr>"
    by simp
  from supabase_client_binding [where accepts = demo_accepts and e = env_browser, OF ok] b ok2
  have r3: "supabase demo_accepts env_browser =
       Some \<lparr>client_url = ''https://kow.supabase.co'', client_key = ''anon-key'',
             client_auth =
               Some \<lparr>persistSession = True, autoRefreshToken = True,
                     detectSessionInUrl = True\<rparr>\<rparr>"
    by simp
  from supabase_client_binding [where accepts = demo_accepts and e = env_bad_url, OF ok] x bad
  have r4: "supabase demo_accepts env_bad_url = None"
    by simp
  from ok u0 r0 r1 a(3) r2 r3 x(1) bad r4 show ?thesis by simp
qed

text \<open>
  C8 as stated fails in two places. On a server with nothing configured the client is
  the placeholder, which is given no session options: it runs with the library's
  defaults, so persistence, auto-refresh and URL session detection are on outside the
  browser. And with a URL that is set but has no scheme, the library refuses it and
  the module load throws.
\<close>

theorem supabase_client_binding_counterexample:
  "SSR env_unset
   \<and> supabase demo_accepts env_unset = Some placeholder_client
   \<and> client_auth placeholder_client = None
   \<and> persistSession (effective_auth placeholder_client)
   \<and> autoRefreshToken (effective_auth placeholder_client)
   \<and> detectSessionInUrl (effective_auth placeholder_client)
   \<and> PUBLIC_SUPABASE_URL env_bad_url = Some ''kow.supabase.co''
   \<and> supabase demo_accepts env_bad_url = None"
  by (simp add: supabase_def createClient_def supabaseUrl_def supabaseKey_def
        supabaseServiceKey_def supabaseAnonKey_def isServer_def or_string_def
        env_unset_def env_bad_url_def placeholder_client_def effective_auth_def
        default_auth_options_def demo_accepts_def startsWith_def)

section \<open>File names of uploads\<close>

lemma class_alnum_dot_ascii: "class_alnum_dot c \<Longrightarrow> of_char c < (128::nat)"
  by (auto simp: class_alnum_dot_def class_alnum_def less_eq_char_def)

lemma sanitize_example:
  "filter class_alnum_dot ''My Photo #1.png'' = ''MyPhoto1.png''"
  by (simp add: class_alnum_dot_def class_alnum_def)

lemma string_of_nat_example: "string_of_nat 1700000000000 = ''1700000000000''"
  by (simp add: digit_char_def)

lemma string_of_nat_not_empty: "string_of_nat n \<noteq> []"
  by (subst string_of_nat.simps) simp

text \<open>
  The booking form does not go through \<open>uploadImage\<close>: it builds its own object name
  with the class \<open>[a-zA-Z0-9]\<close>, which drops the dot as well.
\<close>

lemma booking_fileName_drops_dot:
  "booking_fileName t (file\<lparr>name := ''My Photo #1.png''\<rparr>) = string_of_nat t @ ''-MyPhoto1png''"
  by (simp add: booking_fileName_def class_alnum_def)

text \<open>
  Claim C6. Without a target path, \<open>uploadImage\<close> names the object by the clock
  reading in decimal, a hyphen, and the file name with every character outside
  \<open>[A-Za-z0-9.]\<close> deleted and the others kept in order; the upload is the one that the
  same call with this path given explicitly makes. For the file name
  \<open>My Photo #1.png\<close> at the instant \<open>T\<close> the path is \<open>T-MyPhoto1.png\<close>.
\<close>

theorem uploadImage_default_path:
  "uploadImage_fileName S file None w
     = string_of_nat (Date_now S w) @ ''-'' @ filter class_alnum_dot (name file)
   \<and> uploadImage S bucket file None w
       = uploadImage S bucket file
           (Some (string_of_nat (Date_now S w) @ ''-'' @ filter class_alnum_dot (name file))) w
   \<and> uploadImage_fileName S (file\<lparr>name := ''My Photo #1.png''\<rparr>) None w
       = string_of_nat (Date_now S w) @ ''-MyPhoto1.png''"
proof (intro conjI)
  show n: "uploadImage_fileName S file None w
     = string_of_nat (Date_now S w) @ ''-'' @ filter class_alnum_dot (name file)"
    by (simp add: uploadImage_fileName_def or_string_def)
  have "uploadImage_fileName S file
          (Some (string_of_nat (Date_now S w) @ ''-'' @ filter class_alnum_dot (name file))) w
        = uploadImage_fileName S file None w"
    by (simp add: uploadImage_fileName_def or_string_def string_of_nat_not_empty)
  then show "uploadImage S bucket file None w
       = uploadImage S bucket file
           (Some (string_of_nat (Date_now S w) @ ''-'' @ filter class_alnum_dot (name file))) w"
    by (simp add: uploadImage_def)
  show "uploadImage_fileName S (file\<lparr>name := ''My Photo #1.png''\<rparr>) None w
       = string_of_nat (Date_now S w) @ ''-MyPhoto1.png''"
    by (simp add: uploadImage_fileName_def or_string_def class_alnum_dot_def class_alnum_def)
qed

text \<open>
  C6 in the demo world at the instant 1700000000000: the object is stored under
  \<open>1700000000000-MyPhoto1.png\<close>, the path the function returns.
\<close>

theorem uploadImage_default_path_witness:
  "uploadImage_fileName demo_services photo_ok None demo_w0 = ''1700000000000-MyPhoto1.png''
   \<and> uploadImage demo_services ''portfolio'' photo_ok None demo_w0
       = (Inr \<lparr>result_path = ''1700000000000-MyPhoto1.png'',
               publicUrl = ''https://cdn.test/portfolio/1700000000000-MyPhoto1.png''\<rparr>,
          \<lparr>dw_now = 1700000000001,
           dw_objects = [(''portfolio'', ''1700000000000-MyPhoto1.png'')],
           dw_rows = []\<rparr>)"
proof -
  note t = uploadImage_default_path [of demo_services photo_ok demo_w0 "''portfolio''"]
  have d: "Date_now demo_services demo_w0 = 1700000000000"
    and nm: "name photo_ok = ''My Photo #1.png''"
    by (simp_all add: demo_services_def demo_w0_def photo_ok_def)
  from t have "uploadImage_fileName demo_services photo_ok None demo_w0
     = string_of_nat (Date_now demo_services demo_w0) @ ''-''
         @ filter class_alnum_dot (name photo_ok)"
    by (rule conjunct1)
  then have n: "uploadImage_fileName demo_services photo_ok None demo_w0
                  = ''1700000000000-MyPhoto1.png''"
    by (simp add: d nm digit_char_def class_alnum_dot_def class_alnum_def)
  have "uploadImage demo_services ''portfolio'' photo_ok None demo_w0
       = (Inr \<lparr>result_path = ''1700000000000-MyPhoto1.png'',
               publicUrl = ''https://cdn.test/portfolio/1700000000000-MyPhoto1.png''\<rparr>,
          \<lparr>dw_now = 1700000000001,
           dw_objects = [(''portfolio'', ''1700000000000-MyPhoto1.png'')],
           dw_rows = []\<rparr>)"
    unfolding uploadImage_def n
    by (simp add: demo_services_def demo_upload_def demo_w0_def photo_ok_def Let_def)
  with n show ?thesis by simp
qed

section \<open>The booking form: uploads, then the insert\<close>












end
